theory Spec2Isabelle
  imports Main "HOL-Library.Sublist" "HOL-Library.Log_Nat"
begin

section \<open>Python text\<close>

text \<open>
  A Python \<open>str\<close> is a sequence of Unicode code points; it is modelled as a list of
  natural numbers, one per code point. \<open>str\<close> turns an ASCII literal of the source
  into that form.
\<close>

type_synonym pystr = "nat list"

definition str :: "string \<Rightarrow> pystr" where
  "str s = map of_char s"

text \<open>
  \<open>s.replace(old, new)\<close>: every non-overlapping occurrence of \<open>old\<close>, found from the
  left, is replaced by \<open>new\<close>. For an empty \<open>old\<close> Python inserts \<open>new\<close> before every
  character and at the end.
\<close>

fun replace_all :: "'a list \<Rightarrow> 'a list \<Rightarrow> 'a list \<Rightarrow> 'a list" where
  "replace_all old new [] = []"
| "replace_all old new (c # cs) =
     (if old \<noteq> [] \<and> prefix old (c # cs)
      then new @ replace_all old new (drop (length old) (c # cs))
      else c # replace_all old new cs)"

definition replace :: "'a list \<Rightarrow> 'a list \<Rightarrow> 'a list \<Rightarrow> 'a list" where
  "replace s old new =
     (if old = [] then new @ concat (map (\<lambda>c. c # new) s) else replace_all old new s)"

text \<open>\<open>sub in s\<close> for two strings: \<open>sub\<close> occurs in \<open>s\<close> as a contiguous run.\<close>

fun py_in :: "'a list \<Rightarrow> 'a list \<Rightarrow> bool" where
  "py_in sub [] = (sub = [])"
| "py_in sub (c # cs) = (prefix sub (c # cs) \<or> py_in sub cs)"

text \<open>
  \<open>str.lower\<close> follows the Unicode character database, which is not part of the
  program: the functions below take it as the parameter \<open>lower\<close>. On ASCII text it is
  \<open>ascii_lower\<close>.
\<close>

definition ascii_lower :: "pystr \<Rightarrow> pystr" where
  "ascii_lower s = map (\<lambda>c. if 65 \<le> c \<and> c \<le> 90 then c + 32 else c) s"


section \<open>Response formatter\<close>

text \<open>
  \<^verbatim>\<open>format_weather_response\<close> of \<^verbatim>\<open>app.py\<close>: four replacements in a row, then, when the
  lower-cased result mentions \<^verbatim>\<open>historical data\<close>, a line break before every \<^verbatim>\<open>|\<close>
  (and the replacement of \<^verbatim>\<open>---\<close> by itself). Code point 176 is the degree sign, 10 the
  line feed.
\<close>

definition format_weather_response :: "(pystr \<Rightarrow> pystr) \<Rightarrow> pystr \<Rightarrow> pystr" where
  "format_weather_response lower raw_text =
     (let formatted =
            replace (replace (replace (replace raw_text
              (str ''**'') (str ''*''))
              (str ''Fahrenheit'') (176 # str ''F''))
              (str ''Celsius'') (176 # str ''C''))
              (str '' - '') (10 # str ''- '')
      in if py_in (str ''historical data'') (lower formatted)
         then replace (replace formatted (str ''|'') (10 # str ''|'')) (str ''---'') (str ''---'')
         else formatted)"

text \<open>
  The trigger patterns of the formatter: the four replaced texts, and the \<^verbatim>\<open>|\<close> when the
  historical-data marker is present.
\<close>

definition trigger_free :: "(pystr \<Rightarrow> pystr) \<Rightarrow> pystr \<Rightarrow> bool" where
  "trigger_free lower t =
     (\<not> py_in (str ''**'') t \<and> \<not> py_in (str ''Fahrenheit'') t \<and>
      \<not> py_in (str ''Celsius'') t \<and> \<not> py_in (str '' - '') t \<and>
      (py_in (str ''historical data'') (lower t) \<longrightarrow> \<not> py_in (str ''|'') t))"


section \<open>Dates and times\<close>

text \<open>
  A \<^verbatim>\<open>datetime\<close> has its wall-clock fields, an optional \<^verbatim>\<open>tzinfo\<close> (absent for a naive
  value) and the \<^verbatim>\<open>fold\<close> flag. A \<^verbatim>\<open>tzinfo\<close> is a fixed offset from UTC, counted in
  microseconds, as \<^verbatim>\<open>datetime.timezone\<close> has it; \<^verbatim>\<open>timezone.utc\<close> is the offset 0.
\<close>

datatype tzinfo = Timezone int

definition utc :: tzinfo where
  "utc = Timezone 0"

fun utcoffset :: "tzinfo \<Rightarrow> int" where
  "utcoffset (Timezone off) = off"

record pydatetime =
  year :: int
  month :: int
  day :: int
  hour :: int
  minute :: int
  second :: int
  microsecond :: int
  tzinfo :: "tzinfo option"
  fold :: int

text \<open>The proleptic Gregorian ordinal of a date (\<^verbatim>\<open>toordinal\<close>), day 1 being 0001-01-01.\<close>

definition is_leap :: "int \<Rightarrow> bool" where
  "is_leap y = (y mod 4 = 0 \<and> (y mod 100 \<noteq> 0 \<or> y mod 400 = 0))"

definition days_before_year :: "int \<Rightarrow> int" where
  "days_before_year y = (y - 1) * 365 + (y - 1) div 4 - (y - 1) div 100 + (y - 1) div 400"

definition days_before_month :: "int \<Rightarrow> int \<Rightarrow> int" where
  "days_before_month y m =
     sum_list (take (nat (m - 1)) [31, 28, 31, 30, 31, 30, 31, 31, 30, 31, 30, 31])
       + (if m > 2 \<and> is_leap y then 1 else 0)"

definition toordinal :: "pydatetime \<Rightarrow> int" where
  "toordinal dt = days_before_year (year dt) + days_before_month (year dt) (month dt) + day dt"

definition EPOCH :: pydatetime where
  "EPOCH = \<lparr>year = 1970, month = 1, day = 1, hour = 0, minute = 0, second = 0,
            microsecond = 0, tzinfo = Some utc, fold = 0\<rparr>"

text \<open>
  The difference \<open>a - b\<close> of two aware datetimes, in microseconds: the difference of the
  wall-clock fields, corrected by the two offsets.
\<close>

definition aware_sub :: "pydatetime \<Rightarrow> tzinfo \<Rightarrow> pydatetime \<Rightarrow> tzinfo \<Rightarrow> int" where
  "aware_sub a tza b tzb =
     (let days1 = toordinal a; days2 = toordinal b;
          secs1 = second a + minute a * 60 + hour a * 3600;
          secs2 = second b + minute b * 60 + hour b * 3600;
          base = ((days1 - days2) * 86400 + (secs1 - secs2)) * 1000000
                   + (microsecond a - microsecond b)
      in base + utcoffset tzb - utcoffset tza)"

text \<open>
  \<^verbatim>\<open>int(n / d)\<close> for two Python integers with \<open>d > 0\<close>: the true division gives the
  binary64 number nearest to the quotient (ties to the even significand of 53 bits), and
  \<^verbatim>\<open>int\<close> cuts its fraction off towards zero.
\<close>

definition round_half_even :: "int \<Rightarrow> int \<Rightarrow> int" where
  "round_half_even n d =
     (let q = n div d; r = n mod d
      in if 2 * r < d then q else if 2 * r > d then q + 1 else if even q then q else q + 1)"

definition int_of_true_div :: "int \<Rightarrow> int \<Rightarrow> int" where
  "int_of_true_div n d =
     (let a = \<bar>n\<bar>;
          t = (if a < d then (if d * (2 ^ 54 - 1) \<le> a * 2 ^ 54 then 1 else 0)
               else let e = nat (bitlen (a div d) - 1)
                    in if e \<le> 52
                       then round_half_even (a * 2 ^ (52 - e)) d div 2 ^ (52 - e)
                       else round_half_even a (d * 2 ^ (e - 52)) * 2 ^ (e - 52))
      in if n < 0 then - t else t)"

text \<open>
  \<^verbatim>\<open>int(dt.timestamp())\<close>. An aware datetime is measured against the epoch
  (\<^verbatim>\<open>(dt - EPOCH).total_seconds()\<close>); a naive one is read in the local time of the
  platform, which the parameter \<open>local\<close> stands for.
\<close>

definition timestamp_int :: "(pydatetime \<Rightarrow> int) \<Rightarrow> pydatetime \<Rightarrow> int" where
  "timestamp_int local dt =
     (case tzinfo dt of
        None \<Rightarrow> local dt
      | Some tz \<Rightarrow> int_of_true_div (aware_sub dt tz EPOCH utc) 1000000)"

text \<open>\<^verbatim>\<open>datetime_to_utc_timestamp\<close> of \<^verbatim>\<open>app.py\<close>: \<^verbatim>\<open>int(dt.replace(tzinfo=timezone.utc).timestamp())\<close>.\<close>

definition datetime_to_utc_timestamp :: "(pydatetime \<Rightarrow> int) \<Rightarrow> pydatetime \<Rightarrow> int" where
  "datetime_to_utc_timestamp local dt = timestamp_int local (dt\<lparr>tzinfo := Some utc\<rparr>)"

text \<open>The wall clock of a datetime read as UTC, in microseconds since the epoch.\<close>

definition wall_clock_us :: "pydatetime \<Rightarrow> int" where
  "wall_clock_us dt =
     ((toordinal dt - 719163) * 86400 + (second dt + minute dt * 60 + hour dt * 3600)) * 1000000
       + microsecond dt"

text \<open>2023-04-08T14:30:00, the example of the tool's schema, with an offset of one hour.\<close>

definition example_dt :: pydatetime where
  "example_dt = \<lparr>year = 2023, month = 4, day = 8, hour = 14, minute = 30, second = 0,
     microsecond = 0, tzinfo = Some (Timezone 3600000000), fold = 0\<rparr>"


section \<open>Python values and exceptions\<close>

text \<open>
  The values that travel through the tools are those of decoded JSON: \<^verbatim>\<open>None\<close>, booleans,
  integers, floats, strings, lists and dictionaries with string keys (in insertion order,
  the keys distinct). A float is carried by its \<^verbatim>\<open>repr\<close>, which determines it; the program
  never computes with one.
\<close>

datatype pyval =
    PNone
  | PBool bool
  | PInt int
  | PFloat pystr
  | PStr pystr
  | PList "pyval list"
  | PDict "(pystr \<times> pyval) list"

text \<open>Truth value of a Python value, as \<^verbatim>\<open>if x:\<close> and \<^verbatim>\<open>not x\<close> take it.\<close>

fun truthy :: "pyval \<Rightarrow> bool" where
  "truthy PNone = False"
| "truthy (PBool b) = b"
| "truthy (PInt i) = (i \<noteq> 0)"
| "truthy (PFloat r) = (r \<noteq> str ''0.0'' \<and> r \<noteq> str ''-0.0'')"
| "truthy (PStr s) = (s \<noteq> [])"
| "truthy (PList xs) = (xs \<noteq> [])"
| "truthy (PDict kvs) = (kvs \<noteq> [])"

fun type_name :: "pyval \<Rightarrow> pystr" where
  "type_name PNone = str ''NoneType''"
| "type_name (PBool b) = str ''bool''"
| "type_name (PInt i) = str ''int''"
| "type_name (PFloat r) = str ''float''"
| "type_name (PStr s) = str ''str''"
| "type_name (PList xs) = str ''list''"
| "type_name (PDict kvs) = str ''dict''"

text \<open>
  Exceptions: the class and the message \<^verbatim>\<open>str(e)\<close>. Only subclasses of \<^verbatim>\<open>Exception\<close>
  occur. \<open>HTTPError\<close> and \<open>RequestsJSONDecodeError\<close> (raised by \<^verbatim>\<open>response.json()\<close>) are
  subclasses of \<^verbatim>\<open>requests.exceptions.RequestException\<close>; \<open>RequestException\<close> stands for
  it and its other subclasses (connection errors, timeouts).
\<close>

datatype exc_class =
    RequestException
  | HTTPError
  | RequestsJSONDecodeError
  | AttributeError
  | TypeError
  | ValueError
  | KeyError
  | IndexError
  | OtherException

datatype exc = Exc exc_class pystr

fun exc_str :: "exc \<Rightarrow> pystr" where
  "exc_str (Exc c msg) = msg"

fun is_RequestException :: "exc \<Rightarrow> bool" where
  "is_RequestException (Exc c msg) = (c \<in> {RequestException, HTTPError, RequestsJSONDecodeError})"

text \<open>Decimal digits of an integer, as \<^verbatim>\<open>str\<close> and \<^verbatim>\<open>json.dumps\<close> print it.\<close>

fun digits :: "nat \<Rightarrow> pystr" where
  "digits n = (if n < 10 then [48 + n] else digits (n div 10) @ [48 + n mod 10])"

definition show_int :: "int \<Rightarrow> pystr" where
  "show_int i = (if i < 0 then 45 # digits (nat (- i)) else digits (nat i))"

fun join :: "pystr \<Rightarrow> pystr list \<Rightarrow> pystr" where
  "join sep [] = []"
| "join sep [x] = x"
| "join sep (x # y # ys) = x @ sep @ join sep (y # ys)"

text \<open>
  \<^verbatim>\<open>json.dumps(obj, default=str)\<close> with the defaults of the library: \<^verbatim>\<open>ensure_ascii\<close>, the
  separators \<^verbatim>\<open>", "\<close> and \<^verbatim>\<open>": "\<close>, key order kept. A string is quoted, with the escapes of
  the library for the quote (34), the backslash (92), the control characters and every
  code point outside the printable ASCII range (as \<^verbatim>\<open>\uXXXX\<close>, in surrogate pairs above
  \<^verbatim>\<open>0xFFFF\<close>). Every value of \<open>pyval\<close> is serializable, so the \<^verbatim>\<open>default\<close> hook is
  never called on one.
\<close>

definition hex_digit :: "nat \<Rightarrow> nat" where
  "hex_digit d = (if d < 10 then 48 + d else 87 + d)"

definition hex4 :: "nat \<Rightarrow> pystr" where
  "hex4 n = [hex_digit (n div 4096 mod 16), hex_digit (n div 256 mod 16),
             hex_digit (n div 16 mod 16), hex_digit (n mod 16)]"

definition escape_char :: "nat \<Rightarrow> pystr" where
  "escape_char c =
     (if c = 92 then [92, 92]
      else if c = 34 then [92, 34]
      else if c = 8 then 92 # str ''b''
      else if c = 12 then 92 # str ''f''
      else if c = 10 then 92 # str ''n''
      else if c = 13 then 92 # str ''r''
      else if c = 9 then 92 # str ''t''
      else if 32 \<le> c \<and> c \<le> 126 then [c]
      else if c < 65536 then 92 # str ''u'' @ hex4 c
      else 92 # str ''u'' @ hex4 (55296 + (c - 65536) div 1024 mod 1024)
             @ 92 # str ''u'' @ hex4 (56320 + (c - 65536) mod 1024))"

definition encode_basestring_ascii :: "pystr \<Rightarrow> pystr" where
  "encode_basestring_ascii s = 34 # concat (map escape_char s) @ [34]"

definition float_json :: "pystr \<Rightarrow> pystr" where
  "float_json r =
     (if r = str ''nan'' then str ''NaN''
      else if r = str ''inf'' then str ''Infinity''
      else if r = str ''-inf'' then str ''-Infinity''
      else r)"

fun json_dumps :: "pyval \<Rightarrow> pystr" where
  "json_dumps PNone = str ''null''"
| "json_dumps (PBool b) = (if b then str ''true'' else str ''false'')"
| "json_dumps (PInt i) = show_int i"
| "json_dumps (PFloat r) = float_json r"
| "json_dumps (PStr s) = encode_basestring_ascii s"
| "json_dumps (PList xs) = str ''['' @ join (str '', '') (map json_dumps xs) @ str '']''"
| "json_dumps (PDict kvs) =
     str ''{'' @ join (str '', '')
        (map (\<lambda>kv. encode_basestring_ascii (fst kv) @ str '': '' @ json_dumps (snd kv)) kvs)
      @ str ''}''"

text \<open>
  \<^verbatim>\<open>str(x)\<close>, which an f-string applies to a value. The \<^verbatim>\<open>repr\<close> of a string (its quoting
  and escaping, which follow the Unicode database) is the parameter \<open>repr_str\<close>.
\<close>

fun py_repr :: "(pystr \<Rightarrow> pystr) \<Rightarrow> pyval \<Rightarrow> pystr" where
  "py_repr repr_str PNone = str ''None''"
| "py_repr repr_str (PBool b) = (if b then str ''True'' else str ''False'')"
| "py_repr repr_str (PInt i) = show_int i"
| "py_repr repr_str (PFloat r) = r"
| "py_repr repr_str (PStr s) = repr_str s"
| "py_repr repr_str (PList xs) =
     str ''['' @ join (str '', '') (map (py_repr repr_str) xs) @ str '']''"
| "py_repr repr_str (PDict kvs) =
     str ''{'' @ join (str '', '')
        (map (\<lambda>kv. repr_str (fst kv) @ str '': '' @ py_repr repr_str (snd kv)) kvs)
      @ str ''}''"

definition py_str :: "(pystr \<Rightarrow> pystr) \<Rightarrow> pyval \<Rightarrow> pystr" where
  "py_str repr_str v = (case v of PStr s \<Rightarrow> s | _ \<Rightarrow> py_repr repr_str v)"

text \<open>\<^verbatim>\<open>d.get(key, default)\<close> on a dictionary.\<close>

definition dict_get :: "(pystr \<times> pyval) list \<Rightarrow> pystr \<Rightarrow> pyval \<Rightarrow> pyval" where
  "dict_get kvs k dflt = (case map_of kvs k of None \<Rightarrow> dflt | Some v \<Rightarrow> v)"


section \<open>The world outside the program\<close>

text \<open>
  What the program reads and changes: the process environment, the weather provider
  behind \<^verbatim>\<open>requests.get\<close>, the session of the client and the assistant provider. Library
  functions whose result depends on tables or on the platform are fields too
  (\<open>str_lower\<close>, \<open>repr_str\<close>, \<open>json_loads\<close>, \<open>fromisoformat\<close>, \<open>local_timestamp\<close>).
  Tracing (\<^verbatim>\<open>langfuse\<close>, \<^verbatim>\<open>@observe\<close>) and \<^verbatim>\<open>print\<close> are left out: they do not change
  what the functions return.
\<close>

record request =
  url :: pystr
  params :: "(pystr \<times> pyval) list"

text \<open>
  A response: its status, the message \<^verbatim>\<open>raise_for_status\<close> builds for an error status,
  and what \<^verbatim>\<open>response.json()\<close> does (the decoded body, or the exception it raises).
\<close>

record response =
  status_code :: int
  http_error_message :: pystr
  json_body :: "exc + pyval"

record tool_call =
  call_id :: pystr
  function_name :: pystr
  function_arguments :: pystr

record run =
  run_id :: pystr
  status :: pystr
  required_action :: "tool_call list option"

datatype content_block = TextBlock pystr | OtherBlock

text \<open>The calls made to the assistant provider, as they are logged in the world.\<close>

datatype api_call =
    ThreadsCreate
  | MessagesCreate pyval pyval
  | RunsCreateAndPoll pyval pystr
  | RunsSubmitToolOutputs pyval pystr "pyval list"
  | RunsRetrieve pyval pystr
  | MessagesList pyval

text \<open>
  The network answers a request by its position in the sequence of requests sent so far
  and its content; the assistant provider answers a call by the log of all calls up to
  and including it. \<open>json_loads\<close> returns the decoded value or the message of the
  \<^verbatim>\<open>JSONDecodeError\<close> it raises. The exhaustion of a resource (\<^verbatim>\<open>RecursionError\<close>,
  \<^verbatim>\<open>MemoryError\<close>) is not modelled.
\<close>

record world =
  str_lower :: "pystr \<Rightarrow> pystr"
  repr_str :: "pystr \<Rightarrow> pystr"
  json_loads :: "pystr \<Rightarrow> pystr + pyval"
  fromisoformat :: "pystr \<Rightarrow> exc + pydatetime"
  local_timestamp :: "pydatetime \<Rightarrow> int"
  environ :: "pystr \<rightharpoonup> pystr"
  network :: "nat \<Rightarrow> request \<Rightarrow> exc + response"
  sent :: "request list"
  session :: "pystr \<rightharpoonup> pyval"
  assistant_id :: pystr
  threads_create :: "api_call list \<Rightarrow> exc + pystr"
  messages_create :: "api_call list \<Rightarrow> exc + unit"
  runs_reply :: "api_call list \<Rightarrow> exc + run"
  messages_list :: "api_call list \<Rightarrow> exc + content_block list list"
  api_log :: "api_call list"

definition getenv :: "world \<Rightarrow> pystr \<Rightarrow> pyval" where
  "getenv w k = (case environ w k of None \<Rightarrow> PNone | Some v \<Rightarrow> PStr v)"

definition getenv_default :: "world \<Rightarrow> pystr \<Rightarrow> pystr \<Rightarrow> pystr" where
  "getenv_default w k dflt = (case environ w k of None \<Rightarrow> dflt | Some v \<Rightarrow> v)"

definition requests_get ::
  "world \<Rightarrow> pystr \<Rightarrow> (pystr \<times> pyval) list \<Rightarrow> (exc + response) \<times> world" where
  "requests_get w u ps =
     (let rq = \<lparr>url = u, params = ps\<rparr>
      in (network w (length (sent w)) rq, w\<lparr>sent := sent w @ [rq]\<rparr>))"

definition raise_for_status :: "response \<Rightarrow> exc + unit" where
  "raise_for_status r =
     (if 400 \<le> status_code r \<and> status_code r < 600
      then Inl (Exc HTTPError (http_error_message r)) else Inr ())"

text \<open>
  The three lines every client function has in its \<^verbatim>\<open>try\<close> block:
  \<^verbatim>\<open>response = requests.get(url, params=params)\<close>, \<^verbatim>\<open>response.raise_for_status()\<close>,
  \<^verbatim>\<open>response.json()\<close>.
\<close>

definition fetch_json ::
  "world \<Rightarrow> pystr \<Rightarrow> (pystr \<times> pyval) list \<Rightarrow> (exc + pyval) \<times> world" where
  "fetch_json w u ps =
     (case requests_get w u ps of
        (Inl e, w') \<Rightarrow> (Inl e, w')
      | (Inr r, w') \<Rightarrow>
          (case raise_for_status r of
             Inl e \<Rightarrow> (Inl e, w')
           | Inr _ \<Rightarrow> (json_body r, w')))"

text \<open>
  \<^verbatim>\<open>except requests.exceptions.RequestException\<close> followed by \<^verbatim>\<open>return None\<close>: an exception of
  that class becomes the result \<^verbatim>\<open>None\<close>, any other exception goes on to the caller.
\<close>

definition except_RequestException :: "(exc + pyval) \<times> world \<Rightarrow> (exc + pyval) \<times> world" where
  "except_RequestException r =
     (case r of
        (Inl e, w') \<Rightarrow> if is_RequestException e then (Inr PNone, w') else (Inl e, w')
      | (Inr v, w') \<Rightarrow> (Inr v, w'))"


section \<open>Weather data client\<close>

text \<open>
  \<^verbatim>\<open>exclude if isinstance(exclude, str) else ','.join(exclude)\<close>. Joining iterates a list
  (every item must be a string) or the keys of a dictionary; other values are not
  iterable.
\<close>

fun join_items :: "nat \<Rightarrow> pyval list \<Rightarrow> exc + pystr list" where
  "join_items i [] = Inr []"
| "join_items i (PStr s # xs) =
     (case join_items (Suc i) xs of Inl e \<Rightarrow> Inl e | Inr ss \<Rightarrow> Inr (s # ss))"
| "join_items i (x # xs) =
     Inl (Exc TypeError (str ''sequence item '' @ digits i @ str '': expected str instance, ''
            @ type_name x @ str '' found''))"

fun exclude_param :: "pyval \<Rightarrow> exc + pyval" where
  "exclude_param (PStr s) = Inr (PStr s)"
| "exclude_param (PList xs) =
     (case join_items 0 xs of Inl e \<Rightarrow> Inl e | Inr ss \<Rightarrow> Inr (PStr (join (str '','') ss)))"
| "exclude_param (PDict kvs) = Inr (PStr (join (str '','') (map fst kvs)))"
| "exclude_param v = Inl (Exc TypeError (str ''can only join an iterable''))"

text \<open>\<^verbatim>\<open>get_openweather_onecall\<close> of \<^verbatim>\<open>app.py\<close>. The building of \<^verbatim>\<open>params\<close> is outside the \<^verbatim>\<open>try\<close>.\<close>

definition get_openweather_onecall ::
  "world \<Rightarrow> pyval \<Rightarrow> pyval \<Rightarrow> pyval \<Rightarrow> pyval \<Rightarrow> (exc + pyval) \<times> world" where
  "get_openweather_onecall w lat lon api_key exclude =
     (let url = getenv_default w (str ''OPENWEATHER_ONECALL_API_URL'')
                  (str ''https://api.openweathermap.org/data/2.5/weather'');
          params = [(str ''lat'', lat), (str ''lon'', lon),
                    (str ''appid'', getenv w (str ''WEATHER_API_KEY''))]
      in case (if truthy exclude
               then (case exclude_param exclude of
                       Inl e \<Rightarrow> Inl e
                     | Inr x \<Rightarrow> Inr (params @ [(str ''exclude'', x)]))
               else Inr params) of
           Inl e \<Rightarrow> (Inl e, w)
         | Inr params' \<Rightarrow> except_RequestException (fetch_json w url params'))"

text \<open>
  \<^verbatim>\<open>q += f",{state_code}"\<close>: a string is extended; a list takes the characters of the text
  as new items; every other value raises \<^verbatim>\<open>TypeError\<close>.
\<close>

fun iadd_str :: "pyval \<Rightarrow> pystr \<Rightarrow> exc + pyval" where
  "iadd_str (PStr s) t = Inr (PStr (s @ t))"
| "iadd_str (PList xs) t = Inr (PList (xs @ map (\<lambda>c. PStr [c]) t))"
| "iadd_str v t =
     Inl (Exc TypeError (str ''unsupported operand type(s) for +=: '' @ [39] @ type_name v
            @ [39] @ str '' and '' @ [39] @ str ''str'' @ [39]))"

text \<open>\<^verbatim>\<open>x[0]\<close> and \<^verbatim>\<open>x['key']\<close>, with the exceptions of CPython 3.12.\<close>

fun getitem_0 :: "pyval \<Rightarrow> exc + pyval" where
  "getitem_0 (PList []) = Inl (Exc IndexError (str ''list index out of range''))"
| "getitem_0 (PList (x # xs)) = Inr x"
| "getitem_0 (PStr []) = Inl (Exc IndexError (str ''string index out of range''))"
| "getitem_0 (PStr (c # cs)) = Inr (PStr [c])"
| "getitem_0 (PDict kvs) = Inl (Exc KeyError (str ''0''))"
| "getitem_0 v =
     Inl (Exc TypeError ([39] @ type_name v @ [39] @ str '' object is not subscriptable''))"

fun getitem_str :: "(pystr \<Rightarrow> pystr) \<Rightarrow> pyval \<Rightarrow> pystr \<Rightarrow> exc + pyval" where
  "getitem_str rp (PDict kvs) k =
     (case map_of kvs k of None \<Rightarrow> Inl (Exc KeyError (rp k)) | Some v \<Rightarrow> Inr v)"
| "getitem_str rp (PList xs) k =
     Inl (Exc TypeError (str ''list indices must be integers or slices, not str''))"
| "getitem_str rp (PStr s) k =
     Inl (Exc TypeError (str ''string indices must be integers, not '' @ [39] @ str ''str'' @ [39]))"
| "getitem_str rp v k =
     Inl (Exc TypeError ([39] @ type_name v @ [39] @ str '' object is not subscriptable''))"

definition then_exc :: "exc + 'a \<Rightarrow> ('a \<Rightarrow> exc + 'b) \<Rightarrow> exc + 'b" where
  "then_exc r f = (case r of Inl e \<Rightarrow> Inl e | Inr x \<Rightarrow> f x)"

text \<open>
  \<^verbatim>\<open>get_weather_by_city\<close> of \<^verbatim>\<open>app.py\<close>. The query \<^verbatim>\<open>q\<close> (\<open>city_query\<close>) is built before
  the \<^verbatim>\<open>try\<close>; inside it are the geocoding request, the test for an empty result, the two
  subscripts and the call of \<^verbatim>\<open>get_openweather_onecall\<close>.
\<close>

definition geocoding_url :: pystr where
  "geocoding_url = str ''https://api.openweathermap.org/geo/1.0/direct?''"

definition city_query :: "world \<Rightarrow> pyval \<Rightarrow> pyval \<Rightarrow> pyval \<Rightarrow> exc + pyval" where
  "city_query w city_name country_code state_code =
     (let q0 = Inr city_name;
          q1 = (if truthy state_code
                then then_exc q0 (\<lambda>q. iadd_str q (str '','' @ py_str (repr_str w) state_code))
                else q0)
      in if truthy country_code
         then then_exc q1 (\<lambda>q. iadd_str q (str '','' @ py_str (repr_str w) country_code))
         else q1)"

definition get_weather_by_city ::
  "world \<Rightarrow> pyval \<Rightarrow> pyval \<Rightarrow> pyval \<Rightarrow> pyval \<Rightarrow> pyval \<Rightarrow> (exc + pyval) \<times> world" where
  "get_weather_by_city w city_name api_key country_code state_code exclude =
     (case city_query w city_name country_code state_code of
        Inl e \<Rightarrow> (Inl e, w)
      | Inr q \<Rightarrow>
          (let params = [(str ''q'', q), (str ''limit'', PInt 1),
                         (str ''appid'', getenv w (str ''WEATHER_API_KEY''))]
           in except_RequestException
                (case fetch_json w geocoding_url params of
                   (Inl e, w1) \<Rightarrow> (Inl e, w1)
                 | (Inr geo_data, w1) \<Rightarrow>
                     if \<not> truthy geo_data then (Inr PNone, w1)
                     else
                       (case then_exc (getitem_0 geo_data)
                               (\<lambda>g. getitem_str (repr_str w) g (str ''lat'')) of
                          Inl e \<Rightarrow> (Inl e, w1)
                        | Inr lat \<Rightarrow>
                            (case then_exc (getitem_0 geo_data)
                                    (\<lambda>g. getitem_str (repr_str w) g (str ''lon'')) of
                               Inl e \<Rightarrow> (Inl e, w1)
                             | Inr lon \<Rightarrow>
                                 get_openweather_onecall w1 lat lon api_key exclude)))))"

text \<open>
  \<^verbatim>\<open>get_historical_weather\<close> of \<^verbatim>\<open>app.py\<close>: both \<^verbatim>\<open>except\<close> clauses (for \<^verbatim>\<open>HTTPError\<close> and for
  \<^verbatim>\<open>RequestException\<close>) print and fall through to \<^verbatim>\<open>return None\<close>.
\<close>

definition get_historical_weather ::
  "world \<Rightarrow> pyval \<Rightarrow> pyval \<Rightarrow> pyval \<Rightarrow> pyval \<Rightarrow> pyval \<Rightarrow> pyval \<Rightarrow> (exc + pyval) \<times> world" where
  "get_historical_weather w lat lon api_key start cnt data_type =
     (let url = str ''https://api.openweathermap.org/data/2.5/history/city'';
          params = [(str ''lat'', lat), (str ''lon'', lon), (str ''type'', data_type),
                    (str ''start'', start), (str ''cnt'', cnt), (str ''appid'', api_key)]
      in except_RequestException (fetch_json w url params))"


section \<open>Tool dispatcher\<close>

text \<open>
  The dictionary a dispatch result is: \<^verbatim>\<open>tool_call_id\<close> and the optional keys \<^verbatim>\<open>output\<close> and
  \<^verbatim>\<open>error\<close>. A key that is absent from the dictionary is \<open>None\<close> here.
\<close>

record tool_output =
  tool_call_id :: pystr
  "output" :: "pystr option"
  error :: "pystr option"

text \<open>
  \<^verbatim>\<open>args.get(...)\<close> needs a dictionary: on any other decoded value the attribute lookup
  raises \<^verbatim>\<open>AttributeError\<close>.
\<close>

definition no_attribute_get :: "pyval \<Rightarrow> exc" where
  "no_attribute_get v =
     Exc AttributeError ([39] @ type_name v @ [39] @ str '' object has no attribute ''
        @ [39] @ str ''get'' @ [39])"

text \<open>\<^verbatim>\<open>datetime.fromisoformat(x)\<close>: the parser of the library on a string, \<^verbatim>\<open>TypeError\<close> otherwise.\<close>

definition datetime_fromisoformat :: "world \<Rightarrow> pyval \<Rightarrow> exc + pydatetime" where
  "datetime_fromisoformat w v =
     (case v of
        PStr s \<Rightarrow> fromisoformat w s
      | _ \<Rightarrow> Inl (Exc TypeError (str ''fromisoformat: argument must be str'')))"

text \<open>
  The table \<^verbatim>\<open>tool_dispatcher\<close> of \<^verbatim>\<open>get_outputs_for_tools\<close>: four names, each with the function
  that takes the decoded arguments.
\<close>

definition tool_dispatcher ::
  "world \<Rightarrow> pystr \<Rightarrow> (pyval \<Rightarrow> (exc + pyval) \<times> world) option" where
  "tool_dispatcher w tool_name =
     (if tool_name = str ''get_weather_by_city'' then
        Some (\<lambda>args. case args of
           PDict kvs \<Rightarrow>
             get_weather_by_city w
               (dict_get kvs (str ''city_name'') PNone)
               (dict_get kvs (str ''api_key'') PNone)
               (dict_get kvs (str ''country_code'') PNone)
               (dict_get kvs (str ''state_code'') PNone)
               (dict_get kvs (str ''exclude'') PNone)
         | _ \<Rightarrow> (Inl (no_attribute_get args), w))
      else if tool_name = str ''get_openweather_onecall'' then
        Some (\<lambda>args. case args of
           PDict kvs \<Rightarrow>
             get_openweather_onecall w
               (dict_get kvs (str ''lat'') PNone)
               (dict_get kvs (str ''lon'') PNone)
               (dict_get kvs (str ''api_key'') PNone)
               (dict_get kvs (str ''exclude'') PNone)
         | _ \<Rightarrow> (Inl (no_attribute_get args), w))
      else if tool_name = str ''get_historical_weather'' then
        Some (\<lambda>args. case args of
           PDict kvs \<Rightarrow>
             get_historical_weather w
               (dict_get kvs (str ''lat'') PNone)
               (dict_get kvs (str ''lon'') PNone)
               (dict_get kvs (str ''api_key'') PNone)
               (dict_get kvs (str ''start'') PNone)
               (dict_get kvs (str ''cnt'') PNone)
               (dict_get kvs (str ''data_type'') (PStr (str ''hour'')))
         | _ \<Rightarrow> (Inl (no_attribute_get args), w))
      else if tool_name = str ''datetime_to_utc_timestamp'' then
        Some (\<lambda>args. case args of
           PDict kvs \<Rightarrow>
             (case datetime_fromisoformat w (dict_get kvs (str ''dt'') PNone) of
                Inl e \<Rightarrow> (Inl e, w)
              | Inr dt \<Rightarrow> (Inr (PInt (datetime_to_utc_timestamp (local_timestamp w) dt)), w))
         | _ \<Rightarrow> (Inl (no_attribute_get args), w))
      else None)"

text \<open>
  The \<^verbatim>\<open>try\<close> block of \<^verbatim>\<open>get_outputs_for_tools\<close>: it returns a dispatch result (\<open>Inr\<close>) or
  raises (\<open>Inl\<close>). The inner handler turns a \<^verbatim>\<open>JSONDecodeError\<close> of the arguments into a
  result; an unknown name gives a result before anything is called.
\<close>

definition tool_try_block :: "world \<Rightarrow> tool_call \<Rightarrow> (exc + tool_output) \<times> world" where
  "tool_try_block w tc =
     (let tool_name = function_name tc
      in case json_loads w (function_arguments tc) of
           Inl msg \<Rightarrow>
             (Inr \<lparr>tool_call_id = call_id tc, output = None,
                   error = Some (str ''Invalid JSON in arguments: '' @ msg)\<rparr>, w)
         | Inr arguments \<Rightarrow>
             (case tool_dispatcher w tool_name of
                None \<Rightarrow>
                  (Inr \<lparr>tool_call_id = call_id tc, output = None,
                        error = Some (str ''Unknown tool: '' @ tool_name)\<rparr>, w)
              | Some f \<Rightarrow>
                  (case f arguments of
                     (Inl e, w') \<Rightarrow> (Inl e, w')
                   | (Inr result, w') \<Rightarrow>
                       (Inr \<lparr>tool_call_id = call_id tc, output = Some (json_dumps result),
                             error = None\<rparr>, w'))))"

text \<open>
  \<^verbatim>\<open>get_outputs_for_tools\<close> of \<^verbatim>\<open>app.py\<close>: the \<^verbatim>\<open>try\<close> block under \<^verbatim>\<open>except Exception\<close>, whose
  handler builds the error result from the message of the exception.
\<close>

definition get_outputs_for_tools :: "world \<Rightarrow> tool_call \<Rightarrow> (exc + tool_output) \<times> world" where
  "get_outputs_for_tools w tc =
     (case tool_try_block w tc of
        (Inl e, w') \<Rightarrow>
          (Inr \<lparr>tool_call_id = call_id tc, output = None,
                error = Some (str ''Error executing tool: '' @ exc_str e)\<rparr>, w')
      | (Inr result, w') \<Rightarrow> (Inr result, w'))"

text \<open>
  \<open>dispatch\<close> of the specification: the dispatcher on a tool name and raw arguments
  (for a call with the given id).
\<close>

definition dispatch :: "world \<Rightarrow> pystr \<Rightarrow> pystr \<Rightarrow> pystr \<Rightarrow> (exc + tool_output) \<times> world" where
  "dispatch w cid tool_name raw_arguments =
     get_outputs_for_tools w
       \<lparr>call_id = cid, function_name = tool_name, function_arguments = raw_arguments\<rparr>"

text \<open>The dispatcher over a batch of calls, one after the other; it stops at an exception.\<close>

fun dispatch_batch :: "world \<Rightarrow> tool_call list \<Rightarrow> (exc + tool_output list) \<times> world" where
  "dispatch_batch w [] = (Inr [], w)"
| "dispatch_batch w (tc # tcs) =
     (case get_outputs_for_tools w tc of
        (Inl e, w') \<Rightarrow> (Inl e, w')
      | (Inr r, w') \<Rightarrow>
          (case dispatch_batch w' tcs of
             (Inl e, w'') \<Rightarrow> (Inl e, w'')
           | (Inr rs, w'') \<Rightarrow> (Inr (r # rs), w'')))"

text \<open>Exactly one of \<^verbatim>\<open>output\<close> and \<^verbatim>\<open>error\<close> is set.\<close>

definition one_of_output_error :: "tool_output \<Rightarrow> bool" where
  "one_of_output_error r = ((output r = None) \<noteq> (error r = None))"


section \<open>Conversation run orchestrator\<close>

text \<open>Calls to the assistant provider: each is logged, and answered from the log.\<close>

definition log_call :: "world \<Rightarrow> api_call \<Rightarrow> world" where
  "log_call w c = w\<lparr>api_log := api_log w @ [c]\<rparr>"

definition client_threads_create :: "world \<Rightarrow> (exc + pystr) \<times> world" where
  "client_threads_create w =
     (let w' = log_call w ThreadsCreate in (threads_create w' (api_log w'), w'))"

definition client_messages_create :: "world \<Rightarrow> pyval \<Rightarrow> pyval \<Rightarrow> (exc + unit) \<times> world" where
  "client_messages_create w thread_id content =
     (let w' = log_call w (MessagesCreate thread_id content)
      in (messages_create w' (api_log w'), w'))"

definition client_runs_create_and_poll :: "world \<Rightarrow> pyval \<Rightarrow> (exc + run) \<times> world" where
  "client_runs_create_and_poll w thread_id =
     (let w' = log_call w (RunsCreateAndPoll thread_id (assistant_id w))
      in (runs_reply w' (api_log w'), w'))"

definition client_runs_submit_tool_outputs ::
  "world \<Rightarrow> pyval \<Rightarrow> pystr \<Rightarrow> pyval list \<Rightarrow> (exc + run) \<times> world" where
  "client_runs_submit_tool_outputs w thread_id rid tool_outputs =
     (let w' = log_call w (RunsSubmitToolOutputs thread_id rid tool_outputs)
      in (runs_reply w' (api_log w'), w'))"

definition client_runs_retrieve :: "world \<Rightarrow> pyval \<Rightarrow> pystr \<Rightarrow> (exc + run) \<times> world" where
  "client_runs_retrieve w thread_id rid =
     (let w' = log_call w (RunsRetrieve thread_id rid) in (runs_reply w' (api_log w'), w'))"

definition client_messages_list ::
  "world \<Rightarrow> pyval \<Rightarrow> (exc + content_block list list) \<times> world" where
  "client_messages_list w thread_id =
     (let w' = log_call w (MessagesList thread_id) in (messages_list w' (api_log w'), w'))"

text \<open>
  The body of the \<^verbatim>\<open>for tool_call in tool_calls\<close> loop of \<^verbatim>\<open>ask\<close>, after the dispatch: the
  check of the result's format, then the forcing of \<^verbatim>\<open>output\<close> into a JSON string.
\<close>

definition validate_output_format :: "tool_output \<Rightarrow> tool_output" where
  "validate_output_format result =
     (if output result = None \<and> error result = None
      then result\<lparr>error := Some (str ''Invalid tool response format'')\<rparr>
      else result)"

definition force_json_output :: "world \<Rightarrow> tool_output \<Rightarrow> tool_output" where
  "force_json_output w result =
     (case output result of
        None \<Rightarrow> result
      | Some out \<Rightarrow>
          (case json_loads w out of
             Inl msg \<Rightarrow> result\<lparr>output := Some (json_dumps (PDict [(str ''result'', PStr out)]))\<rparr>
           | Inr v \<Rightarrow> result))"

fun process_tool_calls :: "world \<Rightarrow> tool_call list \<Rightarrow> (exc + tool_output list) \<times> world" where
  "process_tool_calls w [] = (Inr [], w)"
| "process_tool_calls w (tool_call # tool_calls) =
     (case get_outputs_for_tools w tool_call of
        (Inl e, w') \<Rightarrow> (Inl e, w')
      | (Inr result, w') \<Rightarrow>
          (let result' = force_json_output w' (validate_output_format result)
           in case process_tool_calls w' tool_calls of
                (Inl e, w'') \<Rightarrow> (Inl e, w'')
              | (Inr tool_outputs, w'') \<Rightarrow> (Inr (result' # tool_outputs), w'')))"

text \<open>
  One entry of the list given to \<^verbatim>\<open>submit_tool_outputs\<close>: the dictionary with the keys
  \<^verbatim>\<open>tool_call_id\<close> and \<^verbatim>\<open>output\<close>, the latter being
  \<^verbatim>\<open>output.get("output") or json.dumps({"error": output.get("error")})\<close>.
\<close>

definition submission_entry :: "tool_output \<Rightarrow> pyval" where
  "submission_entry r =
     (let err = json_dumps
                  (PDict [(str ''error'', case error r of None \<Rightarrow> PNone | Some m \<Rightarrow> PStr m)])
      in PDict [(str ''tool_call_id'', PStr (tool_call_id r)),
                (str ''output'',
                 PStr (case output r of
                         None \<Rightarrow> err
                       | Some out \<Rightarrow> if out \<noteq> [] then out else err))])"

text \<open>
  One pass through the body of \<^verbatim>\<open>while True\<close>: the handling of \<^verbatim>\<open>requires_action\<close>, the
  test for a terminal status (\<open>True\<close>: the loop is left) and, otherwise, the new
  retrieval of the run (\<open>False\<close>: the loop goes on). The sleep is not modelled.
\<close>

definition loop_body :: "world \<Rightarrow> pyval \<Rightarrow> run \<Rightarrow> (exc + bool \<times> run) \<times> world" where
  "loop_body w thread_id r =
     (case (if status r = str ''requires_action'' then
              (case required_action r of
                 None \<Rightarrow>
                   (Inl (Exc AttributeError ([39] @ str ''NoneType'' @ [39]
                      @ str '' object has no attribute '' @ [39] @ str ''submit_tool_outputs''
                      @ [39])), w)
               | Some tool_calls \<Rightarrow>
                   (case process_tool_calls w tool_calls of
                      (Inl e, w1) \<Rightarrow> (Inl e, w1)
                    | (Inr tool_outputs, w1) \<Rightarrow>
                        client_runs_submit_tool_outputs w1 thread_id (run_id r)
                          (map submission_entry tool_outputs)))
            else (Inr r, w)) of
        (Inl e, w2) \<Rightarrow> (Inl e, w2)
      | (Inr r2, w2) \<Rightarrow>
          if status r2 \<in> {str ''completed'', str ''failed'', str ''expired''}
          then (Inr (True, r2), w2)
          else (case client_runs_retrieve w2 thread_id (run_id r2) of
                  (Inl e, w3) \<Rightarrow> (Inl e, w3)
                | (Inr r3, w3) \<Rightarrow> (Inr (False, r3), w3)))"

text \<open>
  The loop itself. It has no bound in the program, and ends only when the provider
  reports a terminal status or a call raises: \<open>None\<close> is the loop that never ends.
\<close>

partial_function (option) poll_loop ::
  "world \<Rightarrow> pyval \<Rightarrow> run \<Rightarrow> ((exc + run) \<times> world) option" where
  "poll_loop w thread_id r =
     (case loop_body w thread_id r of
        (Inl e, w') \<Rightarrow> Some (Inl e, w')
      | (Inr (done, r'), w') \<Rightarrow>
          if done then Some (Inr r', w') else poll_loop w' thread_id r')"

declare poll_loop.simps [code]

text \<open>
  The thread of the session: created, and its id stored in the session, when the
  session has none.
\<close>

definition ensure_thread :: "world \<Rightarrow> (exc + pyval) \<times> world" where
  "ensure_thread w =
     (case session w (str ''thread_id'') of
        None \<Rightarrow>
          (case client_threads_create w of
             (Inl e, w') \<Rightarrow> (Inl e, w')
           | (Inr tid, w') \<Rightarrow>
               (Inr (PStr tid),
                w'\<lparr>session := (session w')(str ''thread_id'' \<mapsto> PStr tid)\<rparr>))
      | Some t \<Rightarrow> (Inr t, w))"

text \<open>
  \<^verbatim>\<open>client.beta.threads.messages.list(thread_id=thread_id).data[0].content[0].text.value\<close>,
  formatted.
\<close>

definition final_message :: "world \<Rightarrow> pyval \<Rightarrow> (exc + pystr) \<times> world" where
  "final_message w thread_id =
     (case client_messages_list w thread_id of
        (Inl e, w') \<Rightarrow> (Inl e, w')
      | (Inr data, w') \<Rightarrow>
          (case data of
             [] \<Rightarrow> (Inl (Exc IndexError (str ''list index out of range'')), w')
           | content # _ \<Rightarrow>
               (case content of
                  [] \<Rightarrow> (Inl (Exc IndexError (str ''list index out of range'')), w')
                | TextBlock v # _ \<Rightarrow> (Inr (format_weather_response (str_lower w') v), w')
                | OtherBlock # _ \<Rightarrow>
                    (Inl (Exc AttributeError (str ''object has no attribute '' @ [39]
                       @ str ''text'' @ [39])), w'))))"

text \<open>
  \<^verbatim>\<open>ask\<close> of \<^verbatim>\<open>app.py\<close>, the handler of \<^verbatim>\<open>POST /ask\<close>. Its argument is what
  \<^verbatim>\<open>request.get_json()\<close> does on the request: the decoded body, or the exception raised.
  The result is the JSON body and the status of the response (\<open>Inr\<close>), or the exception
  that leaves the handler (\<open>Inl\<close>); \<open>None\<close> is a handler that never returns.
\<close>

definition ask :: "world \<Rightarrow> exc + pyval \<Rightarrow> ((exc + pyval \<times> int) \<times> world) option" where
  "ask w request_json =
     (case request_json of
        Inl e \<Rightarrow> Some (Inl e, w)
      | Inr data \<Rightarrow>
          (case data of
             PDict kvs \<Rightarrow>
               (let question = dict_get kvs (str ''question'') PNone
                in if \<not> truthy question
                   then Some (Inr (PDict [(str ''error'', PStr (str ''No question provided''))], 400),
                              w)
                   else
                     (case ensure_thread w of
                        (Inl e, w1) \<Rightarrow> Some (Inl e, w1)
                      | (Inr thread_id, w1) \<Rightarrow>
                          (case client_messages_create w1 thread_id question of
                             (Inl e, w2) \<Rightarrow> Some (Inl e, w2)
                           | (Inr _, w2) \<Rightarrow>
                               (case client_runs_create_and_poll w2 thread_id of
                                  (Inl e, w3) \<Rightarrow> Some (Inl e, w3)
                                | (Inr r, w3) \<Rightarrow>
                                    (case poll_loop w3 thread_id r of
                                       None \<Rightarrow> None
                                     | Some (Inl e, w4) \<Rightarrow> Some (Inl e, w4)
                                     | Some (Inr r', w4) \<Rightarrow>
                                         (case final_message w4 thread_id of
                                            (Inl e, w5) \<Rightarrow> Some (Inl e, w5)
                                          | (Inr msg, w5) \<Rightarrow>
                                              Some (Inr (PDict
                                                [(str ''thread_id'', thread_id),
                                                 (str ''run_id'', PStr (run_id r')),
                                                 (str ''status'', PStr (status r')),
                                                 (str ''response'', PStr msg)], 200), w5)))))))
           | _ \<Rightarrow> Some (Inl (no_attribute_get data), w)))"


section \<open>Requests, tool names and an example world\<close>

text \<open>The requests the client functions send, and a response that is not an HTTP error.\<close>

definition geocoding_request :: "world \<Rightarrow> pyval \<Rightarrow> request" where
  "geocoding_request w q =
     \<lparr>url = geocoding_url,
      params = [(str ''q'', q), (str ''limit'', PInt 1),
                (str ''appid'', getenv w (str ''WEATHER_API_KEY''))]\<rparr>"

definition onecall_request :: "world \<Rightarrow> pyval \<Rightarrow> pyval \<Rightarrow> request" where
  "onecall_request w lat lon =
     \<lparr>url = getenv_default w (str ''OPENWEATHER_ONECALL_API_URL'')
              (str ''https://api.openweathermap.org/data/2.5/weather''),
      params = [(str ''lat'', lat), (str ''lon'', lon),
                (str ''appid'', getenv w (str ''WEATHER_API_KEY''))]\<rparr>"

definition historical_request ::
  "pyval \<Rightarrow> pyval \<Rightarrow> pyval \<Rightarrow> pyval \<Rightarrow> pyval \<Rightarrow> pyval \<Rightarrow> request" where
  "historical_request lat lon api_key start cnt data_type =
     \<lparr>url = str ''https://api.openweathermap.org/data/2.5/history/city'',
      params = [(str ''lat'', lat), (str ''lon'', lon), (str ''type'', data_type),
                (str ''start'', start), (str ''cnt'', cnt), (str ''appid'', api_key)]\<rparr>"

definition ok_status :: "response \<Rightarrow> bool" where
  "ok_status r = (status_code r < 400 \<or> 600 \<le> status_code r)"

text \<open>
  The geocoding lookup for the query \<open>q\<close> returns an empty result set: the request is
  answered, without an HTTP error, by a body that decodes to an empty (falsy) value.
\<close>

definition geocoding_empty :: "world \<Rightarrow> pyval \<Rightarrow> bool" where
  "geocoding_empty w q =
     (case network w (length (sent w)) (geocoding_request w q) of
        Inl e \<Rightarrow> False
      | Inr resp \<Rightarrow>
          ok_status resp \<and>
          (case json_body resp of Inl e \<Rightarrow> False | Inr geo_data \<Rightarrow> \<not> truthy geo_data))"

text \<open>The four names of the dispatch table.\<close>

definition tool_names :: "pystr list" where
  "tool_names = [str ''get_weather_by_city'', str ''get_openweather_onecall'',
                 str ''get_historical_weather'', str ''datetime_to_utc_timestamp'']"

text \<open>
  The key \<^verbatim>\<open>question\<close> of a request body is missing, or its value is the empty string.
\<close>

definition question_missing_or_empty :: "(pystr \<times> pyval) list \<Rightarrow> bool" where
  "question_missing_or_empty kvs =
     (case map_of kvs (str ''question'') of None \<Rightarrow> True | Some v \<Rightarrow> v = PStr [])"

text \<open>
  An example world. Its geocoding service knows no city (every lookup returns the empty
  list) and no other service is reachable; its JSON decoder answers as \<^verbatim>\<open>json.loads\<close> does
  on the four texts used below; the assistant completes every run at once.
\<close>

definition example_json_loads :: "pystr \<Rightarrow> pystr + pyval" where
  \<open>example_json_loads s =
     (if s = str ''{}'' then Inr (PDict [])
      else if s = str ''{"city_name": "Nowhereville"}''
        then Inr (PDict [(str ''city_name'', PStr (str ''Nowhereville''))])
      else if s = str ''null'' then Inr PNone
      else Inl (str ''Expecting value: line 1 column 1 (char 0)''))\<close>

definition example_network :: "nat \<Rightarrow> request \<Rightarrow> exc + response" where
  "example_network n rq =
     (if url rq = geocoding_url
      then Inr \<lparr>status_code = 200, http_error_message = [], json_body = Inr (PList [])\<rparr>
      else Inl (Exc RequestException (str ''connection refused'')))"

definition example_world :: world where
  "example_world =
     \<lparr>str_lower = ascii_lower,
      repr_str = (\<lambda>s. [39] @ s @ [39]),
      json_loads = example_json_loads,
      fromisoformat = (\<lambda>s. Inl (Exc ValueError (str ''Invalid isoformat string''))),
      local_timestamp = (\<lambda>dt. 0),
      environ = [str ''WEATHER_API_KEY'' \<mapsto> str ''secret''],
      network = example_network,
      sent = [],
      session = Map.empty,
      assistant_id = str ''asst_1'',
      threads_create = (\<lambda>l. Inr (str ''thread_1'')),
      messages_create = (\<lambda>l. Inr ()),
      runs_reply = (\<lambda>l. Inr \<lparr>run_id = str ''run_1'', status = str ''completed'',
                                 required_action = None\<rparr>),
      messages_list = (\<lambda>l. Inr [[TextBlock (str ''It is 20 Celsius'')]]),
      api_log = []\<rparr>"

definition nowhere_call :: tool_call where
  \<open>nowhere_call =
     \<lparr>call_id = str ''call_1'', function_name = str ''get_weather_by_city'',
      function_arguments = str ''{"city_name": "Nowhereville"}''\<rparr>\<close>


text \<open>
  A dispatch result with neither \<^verbatim>\<open>output\<close> nor \<^verbatim>\<open>error\<close>, a result with an error, a run that
  requires the call above, and a request body with a question.
\<close>

definition malformed_result :: tool_output where
  "malformed_result = \<lparr>tool_call_id = str ''call_1'', output = None, error = None\<rparr>"

definition error_result :: tool_output where
  "error_result = \<lparr>tool_call_id = str ''call_1'', output = None,
                    error = Some (str ''Unknown tool: unknown_tool'')\<rparr>"

definition example_run :: run where
  "example_run = \<lparr>run_id = str ''run_1'', status = str ''requires_action'',
                   required_action = Some [nowhere_call]\<rparr>"

definition example_question :: pyval where
  "example_question = PDict [(str ''question'', PStr (str ''How warm is it in London?''))]"


section \<open>Properties of the formatter\<close>

lemma replace_all_absent: "\<not> py_in old s \<Longrightarrow> replace_all old new s = s"
  by (induction old new s rule: replace_all.induct) auto

lemma replace_absent: "old \<noteq> [] \<Longrightarrow> \<not> py_in old s \<Longrightarrow> replace s old new = s"
  by (simp add: replace_def replace_all_absent)

lemma replace_all_same: "new = old \<Longrightarrow> replace_all old new s = s"
proof (induction old new s rule: replace_all.induct)
  case (1 old new)
  show ?case by simp
next
  case (2 old new c cs)
  show ?case
  proof (cases "old \<noteq> [] \<and> prefix old (c # cs)")
    case True
    then obtain zs where zs: "c # cs = old @ zs"
      by (auto simp: prefix_def)
    from zs have dr: "drop (length old) (c # cs) = zs"
      by simp
    from True have "replace_all old new (c # cs)
        = new @ replace_all old new (drop (length old) (c # cs))"
      by simp
    also from True "2.IH"(1) "2.prems" have "\<dots> = new @ drop (length old) (c # cs)"
      by simp
    also from dr zs "2.prems" have "\<dots> = c # cs"
      by simp
    finally show ?thesis .
  next
    case False
    with 2 show ?thesis by auto
  qed
qed

lemma replace_same: "old \<noteq> [] \<Longrightarrow> replace s old old = s"
  by (simp add: replace_def replace_all_same)

lemma format_fixed_point:
  assumes "trigger_free lower t"
  shows "format_weather_response lower t = t"
proof -
  from assms have a: "replace t (str ''**'') (str ''*'') = t"
    by (simp add: trigger_free_def replace_absent str_def)
  from assms have b: "replace t (str ''Fahrenheit'') (176 # str ''F'') = t"
    by (simp add: trigger_free_def replace_absent str_def)
  from assms have c: "replace t (str ''Celsius'') (176 # str ''C'') = t"
    by (simp add: trigger_free_def replace_absent str_def)
  from assms have d: "replace t (str '' - '') (10 # str ''- '') = t"
    by (simp add: trigger_free_def replace_absent str_def)
  have e: "replace u (str ''---'') (str ''---'') = u" for u :: pystr
    by (simp add: replace_same str_def)
  from assms have f:
    "py_in (str ''historical data'') (lower t) \<Longrightarrow> replace t (str ''|'') (10 # str ''|'') = t"
    by (simp add: trigger_free_def replace_absent str_def)
  show ?thesis
    unfolding format_weather_response_def Let_def a b c d e
    using f by simp
qed

text \<open>
  C2, as stated, fails: formatting \<^verbatim>\<open>****\<close> gives \<^verbatim>\<open>**\<close>, and formatting that again gives
  \<^verbatim>\<open>*\<close>; formatting \<^verbatim>\<open>historical data|\<close> puts one more line feed before the \<^verbatim>\<open>|\<close> at
  every pass.
\<close>

theorem format_not_idempotent:
  "format_weather_response ascii_lower (format_weather_response ascii_lower (str ''****''))
     \<noteq> format_weather_response ascii_lower (str ''****'')
   \<and> format_weather_response ascii_lower
        (format_weather_response ascii_lower (str ''historical data|''))
     \<noteq> format_weather_response ascii_lower (str ''historical data|'')"
  by (simp add: format_weather_response_def replace_def str_def ascii_lower_def)

text \<open>
  C2, amended: the formatter is idempotent at every text whose formatted form no longer
  contains a trigger pattern: there, formatting the output again returns it unchanged.
\<close>

theorem format_idempotent_when_trigger_free:
  "trigger_free lower (format_weather_response lower x) \<Longrightarrow>
   format_weather_response lower (format_weather_response lower x)
     = format_weather_response lower x"
  by (rule format_fixed_point)

theorem format_idempotent_when_trigger_free_witness:
  "trigger_free ascii_lower (format_weather_response ascii_lower (str ''**Hot** - 30 Celsius''))
   \<and> format_weather_response ascii_lower
        (format_weather_response ascii_lower (str ''**Hot** - 30 Celsius''))
     = format_weather_response ascii_lower (str ''**Hot** - 30 Celsius'')"
proof -
  have h: "trigger_free ascii_lower
             (format_weather_response ascii_lower (str ''**Hot** - 30 Celsius''))"
    by (simp add: trigger_free_def format_weather_response_def replace_def str_def
        ascii_lower_def)
  from h format_idempotent_when_trigger_free [OF h] show ?thesis by simp
qed


section \<open>Properties of the timestamp conversion\<close>

lemma toordinal_EPOCH: "toordinal EPOCH = 719163"
  by (simp add: toordinal_def EPOCH_def days_before_year_def days_before_month_def)

lemma toordinal_tzinfo: "toordinal (dt\<lparr>tzinfo := tz\<rparr>) = toordinal dt"
  by (simp add: toordinal_def)

lemma aware_sub_utc: "aware_sub (dt\<lparr>tzinfo := tz\<rparr>) utc EPOCH utc = wall_clock_us dt"
  by (simp add: aware_sub_def wall_clock_us_def toordinal_EPOCH toordinal_tzinfo Let_def)
     (simp add: EPOCH_def utc_def)

text \<open>
  A conversion would give another number: read with its own offset of one hour,
  the example is 3600 seconds earlier than what \<open>datetime_to_utc_timestamp\<close> returns.
\<close>

lemma example_dt_converted: "timestamp_int local example_dt = 1680960600"
  by code_simp

lemma example_dt_reinterpreted: "datetime_to_utc_timestamp local example_dt = 1680964200"
  by code_simp

text \<open>
  C9: \<open>datetime_to_utc_timestamp\<close> reads the wall-clock fields of its input as UTC.
  Whatever \<open>tzinfo\<close> the input carries (none, or any offset) is replaced, not converted:
  the result is the truncated number of seconds from the epoch to the wall clock taken
  as UTC, it does not depend on the local time of the platform, and two datetimes that
  differ only in their \<open>tzinfo\<close> get the same timestamp.
\<close>

theorem datetime_to_utc_timestamp_wall_clock:
  "datetime_to_utc_timestamp local dt = int_of_true_div (wall_clock_us dt) 1000000
   \<and> datetime_to_utc_timestamp local (dt\<lparr>tzinfo := None\<rparr>)
       = timestamp_int local' (dt\<lparr>tzinfo := Some utc\<rparr>)
   \<and> datetime_to_utc_timestamp local (dt\<lparr>tzinfo := Some tz\<rparr>)
       = timestamp_int local' (dt\<lparr>tzinfo := Some utc\<rparr>)
   \<and> datetime_to_utc_timestamp local (dt\<lparr>tzinfo := tz1\<rparr>)
       = datetime_to_utc_timestamp local (dt\<lparr>tzinfo := tz2\<rparr>)"
  by (simp add: datetime_to_utc_timestamp_def timestamp_int_def aware_sub_utc)


section \<open>Properties of the weather data client\<close>

lemma fetch_json_sent:
  "sent (snd (fetch_json w u ps)) = sent w @ [\<lparr>url = u, params = ps\<rparr>]"
  by (simp add: fetch_json_def requests_get_def Let_def split: sum.splits)

lemma snd_except_RequestException: "snd (except_RequestException r) = snd r"
  by (cases r) (simp add: except_RequestException_def split: sum.splits)

lemma get_historical_weather_sent:
  "sent (snd (get_historical_weather w lat lon api_key start cnt data_type))
     = sent w @ [historical_request lat lon api_key start cnt data_type]"
  by (simp add: get_historical_weather_def historical_request_def Let_def
      snd_except_RequestException fetch_json_sent)

lemma get_openweather_onecall_sent:
  "sent (snd (get_openweather_onecall w lat lon api_key PNone))
     = sent w @ [onecall_request w lat lon]"
  by (simp add: get_openweather_onecall_def onecall_request_def Let_def
      snd_except_RequestException fetch_json_sent)

lemma get_openweather_onecall_key:
  "get_openweather_onecall w lat lon k1 exclude = get_openweather_onecall w lat lon k2 exclude"
  by (simp add: get_openweather_onecall_def)

lemma fetch_json_ok:
  "network w (length (sent w)) \<lparr>url = u, params = ps\<rparr> = Inr resp \<Longrightarrow> ok_status resp \<Longrightarrow>
   fetch_json w u ps = (json_body resp, w\<lparr>sent := sent w @ [\<lparr>url = u, params = ps\<rparr>]\<rparr>)"
  by (auto simp add: fetch_json_def requests_get_def raise_for_status_def ok_status_def Let_def)

lemma get_weather_by_city_empty:
  assumes "city_query w city_name country_code state_code = Inr q"
    and "geocoding_empty w q"
  shows "get_weather_by_city w city_name api_key country_code state_code exclude
           = (Inr PNone, w\<lparr>sent := sent w @ [geocoding_request w q]\<rparr>)"
proof -
  from assms(2) obtain resp geo_data where
    net: "network w (length (sent w)) (geocoding_request w q) = Inr resp"
    and ok: "ok_status resp" and body: "json_body resp = Inr geo_data"
    and empty: "\<not> truthy geo_data"
    by (auto simp: geocoding_empty_def split: sum.splits)
  from net ok body have
    "fetch_json w geocoding_url [(str ''q'', q), (str ''limit'', PInt 1),
        (str ''appid'', getenv w (str ''WEATHER_API_KEY''))]
      = (Inr geo_data, w\<lparr>sent := sent w @ [geocoding_request w q]\<rparr>)"
    by (simp add: fetch_json_ok geocoding_request_def)
  with assms(1) empty show ?thesis
    by (simp add: get_weather_by_city_def except_RequestException_def Let_def)
qed

lemma dispatch_city_empty:
  assumes args: "json_loads w raw = Inr (PDict kvs)"
    and q: "city_query w (dict_get kvs (str ''city_name'') PNone)
              (dict_get kvs (str ''country_code'') PNone)
              (dict_get kvs (str ''state_code'') PNone) = Inr q"
    and empty: "geocoding_empty w q"
  shows "dispatch w cid (str ''get_weather_by_city'') raw
           = (Inr \<lparr>tool_call_id = cid, output = Some (str ''null''), error = None\<rparr>,
              w\<lparr>sent := sent w @ [geocoding_request w q]\<rparr>)"
  using args get_weather_by_city_empty [OF q empty]
  by (simp add: dispatch_def get_outputs_for_tools_def tool_try_block_def tool_dispatcher_def)

text \<open>
  C7, as stated, fails in its second half. With a geocoding service that returns the empty
  list for \<^verbatim>\<open>Nowhereville\<close>, the client returns \<^verbatim>\<open>None\<close> without raising, and the dispatcher
  serializes that \<^verbatim>\<open>None\<close>: the result has the output \<^verbatim>\<open>null\<close> and no error.
\<close>

theorem city_not_found_gives_output:
  "geocoding_empty example_world (PStr (str ''Nowhereville''))
   \<and> fst (get_weather_by_city example_world (PStr (str ''Nowhereville'')) PNone PNone PNone PNone)
       = Inr PNone
   \<and> fst (get_outputs_for_tools example_world nowhere_call)
       = Inr \<lparr>tool_call_id = str ''call_1'', output = Some (str ''null''), error = None\<rparr>"
  by (simp add: geocoding_empty_def example_world_def example_network_def geocoding_request_def
      ok_status_def get_weather_by_city_def city_query_def Let_def except_RequestException_def
      fetch_json_def requests_get_def raise_for_status_def
      get_outputs_for_tools_def tool_try_block_def tool_dispatcher_def nowhere_call_def
      example_json_loads_def dict_get_def getenv_def str_def then_exc_def geocoding_url_def)

text \<open>
  C7, amended: when the geocoding lookup returns an empty result set for the query built
  from the arguments, \<open>get_weather_by_city\<close> returns \<^verbatim>\<open>None\<close> after that one request,
  without raising, and the dispatcher returns a result whose \<^verbatim>\<open>output\<close> is the JSON text
  \<^verbatim>\<open>null\<close> and which has no \<^verbatim>\<open>error\<close>.
\<close>

theorem city_not_found_is_null_output:
  "json_loads w raw = Inr (PDict kvs) \<Longrightarrow>
   city_query w (dict_get kvs (str ''city_name'') PNone)
       (dict_get kvs (str ''country_code'') PNone)
       (dict_get kvs (str ''state_code'') PNone) = Inr q \<Longrightarrow>
   geocoding_empty w q \<Longrightarrow>
   get_weather_by_city w (dict_get kvs (str ''city_name'') PNone) api_key
       (dict_get kvs (str ''country_code'') PNone)
       (dict_get kvs (str ''state_code'') PNone) exclude
     = (Inr PNone, w\<lparr>sent := sent w @ [geocoding_request w q]\<rparr>)
   \<and> dispatch w cid (str ''get_weather_by_city'') raw
     = (Inr \<lparr>tool_call_id = cid, output = Some (str ''null''), error = None\<rparr>,
        w\<lparr>sent := sent w @ [geocoding_request w q]\<rparr>)"
  by (simp add: dispatch_city_empty get_weather_by_city_empty)


theorem city_not_found_is_null_output_witness:
  "json_loads example_world (function_arguments nowhere_call)
     = Inr (PDict [(str ''city_name'', PStr (str ''Nowhereville''))])
   \<and> geocoding_empty example_world (PStr (str ''Nowhereville''))
   \<and> get_weather_by_city example_world (PStr (str ''Nowhereville'')) PNone PNone PNone PNone
     = (Inr PNone, example_world
          \<lparr>sent := [geocoding_request example_world (PStr (str ''Nowhereville''))]\<rparr>)
   \<and> dispatch example_world (str ''call_1'') (str ''get_weather_by_city'')
        (function_arguments nowhere_call)
     = (Inr \<lparr>tool_call_id = str ''call_1'', output = Some (str ''null''), error = None\<rparr>,
        example_world
          \<lparr>sent := [geocoding_request example_world (PStr (str ''Nowhereville''))]\<rparr>)"
proof -
  let ?kvs = "[(str ''city_name'', PStr (str ''Nowhereville''))]"
  have a: "json_loads example_world (function_arguments nowhere_call) = Inr (PDict ?kvs)"
    by (simp add: example_world_def example_json_loads_def nowhere_call_def str_def)
  have b: "city_query example_world (dict_get ?kvs (str ''city_name'') PNone)
             (dict_get ?kvs (str ''country_code'') PNone)
             (dict_get ?kvs (str ''state_code'') PNone) = Inr (PStr (str ''Nowhereville''))"
    by (simp add: city_query_def dict_get_def str_def)
  have c: "geocoding_empty example_world (PStr (str ''Nowhereville''))"
    by (simp add: geocoding_empty_def example_world_def example_network_def
        geocoding_request_def ok_status_def)
  have s: "sent example_world = []"
    by (simp add: example_world_def)
  have d: "dict_get ?kvs (str ''city_name'') PNone = PStr (str ''Nowhereville'')"
    "dict_get ?kvs (str ''country_code'') PNone = PNone"
    "dict_get ?kvs (str ''state_code'') PNone = PNone"
    by (simp_all add: dict_get_def str_def)
  from city_not_found_is_null_output [OF a b c, of PNone PNone "str ''call_1''"] a c
  show ?thesis
    unfolding d s by simp
qed

text \<open>
  C8: the \<open>api_key\<close> argument of \<open>get_weather_by_city\<close> and of
  \<open>get_openweather_onecall\<close> has no effect: with any two keys, the result and the world
  afterwards (the requests sent, with their parameters) are the same; the request of
  \<open>get_openweather_onecall\<close> carries the value of \<^verbatim>\<open>WEATHER_API_KEY\<close> of the environment as
  \<^verbatim>\<open>appid\<close>. The request of \<open>get_historical_weather\<close> carries its \<open>api_key\<close> argument.
\<close>

theorem api_key_ignored:
  "get_weather_by_city w city_name k1 country_code state_code exclude
     = get_weather_by_city w city_name k2 country_code state_code exclude
   \<and> get_openweather_onecall w lat lon k1 exclude = get_openweather_onecall w lat lon k2 exclude
   \<and> sent (snd (get_openweather_onecall w lat lon k1 PNone)) = sent w @ [onecall_request w lat lon]
   \<and> sent (snd (get_historical_weather w lat lon k start cnt data_type))
       = sent w @ [historical_request lat lon k start cnt data_type]"
proof -
  have eq: "get_openweather_onecall w' a b k1 exclude = get_openweather_onecall w' a b k2 exclude"
    for w' a b
    by (rule get_openweather_onecall_key)
  have "get_weather_by_city w city_name k1 country_code state_code exclude
     = get_weather_by_city w city_name k2 country_code state_code exclude"
    by (simp only: get_weather_by_city_def eq)
  then show ?thesis
    by (simp add: get_historical_weather_sent get_openweather_onecall_sent eq)
qed


section \<open>Properties of the dispatcher\<close>

lemma tool_dispatcher_None: "tool_dispatcher w n = None \<longleftrightarrow> n \<notin> set tool_names"
  by (simp add: tool_dispatcher_def tool_names_def)

lemma get_outputs_for_tools_total:
  "\<exists>out w'. get_outputs_for_tools w tc = (Inr out, w') \<and> tool_call_id out = call_id tc
      \<and> one_of_output_error out"
  by (auto simp: get_outputs_for_tools_def tool_try_block_def one_of_output_error_def Let_def
      split: sum.splits option.splits prod.splits)

lemma dispatch_batch_total:
  "\<exists>outs w'. dispatch_batch w tcs = (Inr outs, w') \<and> length outs = length tcs
      \<and> map tool_call_id outs = map call_id tcs \<and> list_all one_of_output_error outs"
proof (induction tcs arbitrary: w)
  case Nil
  show ?case by simp
next
  case (Cons tc tcs)
  obtain out w1 where a: "get_outputs_for_tools w tc = (Inr out, w1)"
    "tool_call_id out = call_id tc" "one_of_output_error out"
    using get_outputs_for_tools_total by blast
  obtain outs w2 where b: "dispatch_batch w1 tcs = (Inr outs, w2)" "length outs = length tcs"
    "map tool_call_id outs = map call_id tcs" "list_all one_of_output_error outs"
    using Cons.IH by blast
  from a b show ?case by simp
qed

text \<open>
  C1: for every tool call (any name, any raw arguments) the dispatcher returns, without
  raising, one result that carries the id of the call and has exactly one of
  \<^verbatim>\<open>output\<close> and \<^verbatim>\<open>error\<close> set; so a batch of \<open>N\<close> calls yields \<open>N\<close> results, in
  the order of the calls.
\<close>

theorem dispatcher_total:
  "(\<exists>out w'. dispatch w cid tool_name raw_arguments = (Inr out, w') \<and> tool_call_id out = cid
       \<and> one_of_output_error out)
   \<and> (\<exists>out w'. get_outputs_for_tools w tc = (Inr out, w') \<and> tool_call_id out = call_id tc
       \<and> one_of_output_error out)
   \<and> (\<exists>outs w'. dispatch_batch w tcs = (Inr outs, w') \<and> length outs = length tcs
       \<and> map tool_call_id outs = map call_id tcs \<and> list_all one_of_output_error outs)"
  using get_outputs_for_tools_total [of w tc] dispatch_batch_total [of w tcs]
    get_outputs_for_tools_total
      [of w "\<lparr>call_id = cid, function_name = tool_name, function_arguments = raw_arguments\<rparr>"]
  by (simp add: dispatch_def)

text \<open>
  C5: for a tool name that is none of the four names of the table, and arguments that
  decode, the dispatcher returns the error \<^verbatim>\<open>Unknown tool: <name>\<close>, and calls nothing.
\<close>

theorem unknown_tool_error:
  "tool_name \<notin> set tool_names \<Longrightarrow> json_loads w raw_arguments = Inr args \<Longrightarrow>
   dispatch w cid tool_name raw_arguments
     = (Inr \<lparr>tool_call_id = cid, output = None,
            error = Some (str ''Unknown tool: '' @ tool_name)\<rparr>, w)"
proof -
  assume "tool_name \<notin> set tool_names" and args: "json_loads w raw_arguments = Inr args"
  then have "tool_dispatcher w tool_name = None"
    by (simp add: tool_dispatcher_None)
  with args show ?thesis
    by (simp add: dispatch_def get_outputs_for_tools_def tool_try_block_def)
qed

theorem unknown_tool_error_witness:
  "str ''unknown_tool'' \<notin> set tool_names
   \<and> json_loads example_world (str ''{}'') = Inr (PDict [])
   \<and> dispatch example_world (str ''call_1'') (str ''unknown_tool'') (str ''{}'')
       = (Inr \<lparr>tool_call_id = str ''call_1'', output = None,
              error = Some (str ''Unknown tool: unknown_tool'')\<rparr>, example_world)"
proof -
  have a: "str ''unknown_tool'' \<notin> set tool_names"
    by (simp add: tool_names_def str_def)
  have b: "json_loads example_world (str ''{}'') = Inr (PDict [])"
    by (simp add: example_world_def example_json_loads_def)
  from unknown_tool_error [OF a b, of "str ''call_1''"] a b show ?thesis
    by (simp add: str_def)
qed

text \<open>
  C6: when the raw arguments are not valid JSON (\<^verbatim>\<open>json.loads\<close> raises
  \<^verbatim>\<open>JSONDecodeError\<close>), the dispatcher returns, for every tool name, the error
  \<^verbatim>\<open>Invalid JSON in arguments: \<close> followed by the message of the decoder; nothing is raised
  and nothing is called.
\<close>

theorem invalid_json_error:
  "json_loads w raw_arguments = Inl msg \<Longrightarrow>
   dispatch w cid tool_name raw_arguments
     = (Inr \<lparr>tool_call_id = cid, output = None,
            error = Some (str ''Invalid JSON in arguments: '' @ msg)\<rparr>, w)"
  by (simp add: dispatch_def get_outputs_for_tools_def tool_try_block_def)

theorem invalid_json_error_witness:
  "json_loads example_world (str ''<not valid JSON>'')
     = Inl (str ''Expecting value: line 1 column 1 (char 0)'')
   \<and> dispatch example_world (str ''call_1'') (str ''get_historical_weather'')
         (str ''<not valid JSON>'')
       = (Inr \<lparr>tool_call_id = str ''call_1'', output = None,
              error = Some (str
                ''Invalid JSON in arguments: Expecting value: line 1 column 1 (char 0)'')\<rparr>,
          example_world)"
proof -
  have a: "json_loads example_world (str ''<not valid JSON>'')
     = Inl (str ''Expecting value: line 1 column 1 (char 0)'')"
    by (simp add: example_world_def example_json_loads_def str_def)
  from invalid_json_error [OF a, of "str ''call_1''" "str ''get_historical_weather''"] a
  show ?thesis
    by (simp add: str_def)
qed


section \<open>Properties of the orchestrator\<close>

lemma api_log_fetch_json: "api_log (snd (fetch_json w u ps)) = api_log w"
  by (simp add: fetch_json_def requests_get_def Let_def split: sum.splits)

lemma api_log_get_openweather_onecall:
  "api_log (snd (get_openweather_onecall w lat lon k ex)) = api_log w"
  by (simp add: get_openweather_onecall_def Let_def snd_except_RequestException
      api_log_fetch_json split: sum.splits)

lemma api_log_get_historical_weather:
  "api_log (snd (get_historical_weather w lat lon k start cnt ty)) = api_log w"
  by (simp add: get_historical_weather_def Let_def snd_except_RequestException
      api_log_fetch_json)

lemma api_log_get_weather_by_city:
  "api_log (snd (get_weather_by_city w c k cc sc ex)) = api_log w"
proof (cases "city_query w c cc sc")
  case (Inl e)
  then show ?thesis by (simp add: get_weather_by_city_def)
next
  case (Inr q)
  let ?ps = "[(str ''q'', q), (str ''limit'', PInt 1),
              (str ''appid'', getenv w (str ''WEATHER_API_KEY''))]"
  obtain r w1 where f: "fetch_json w geocoding_url ?ps = (r, w1)"
    by (cases "fetch_json w geocoding_url ?ps")
  with api_log_fetch_json [of w geocoding_url ?ps] have w1: "api_log w1 = api_log w"
    by simp
  from Inr f w1 show ?thesis
    by (simp add: get_weather_by_city_def Let_def snd_except_RequestException
        api_log_get_openweather_onecall split: sum.splits)
qed

lemma api_log_tool_dispatcher:
  "tool_dispatcher w n = Some f \<Longrightarrow> api_log (snd (f args)) = api_log w"
  by (auto simp: tool_dispatcher_def api_log_get_weather_by_city
      api_log_get_openweather_onecall api_log_get_historical_weather
      split: if_splits pyval.splits sum.splits)

lemma api_log_get_outputs_for_tools: "api_log (snd (get_outputs_for_tools w tc)) = api_log w"
proof (cases "json_loads w (function_arguments tc)")
  case (Inl msg)
  then show ?thesis
    by (simp add: get_outputs_for_tools_def tool_try_block_def)
next
  case (Inr args)
  show ?thesis
  proof (cases "tool_dispatcher w (function_name tc)")
    case None
    with Inr show ?thesis
      by (simp add: get_outputs_for_tools_def tool_try_block_def)
  next
    case (Some f)
    obtain r w1 where f: "f args = (r, w1)"
      by (cases "f args")
    with api_log_tool_dispatcher [OF Some, of args] have "api_log w1 = api_log w"
      by simp
    with Inr Some f show ?thesis
      by (simp add: get_outputs_for_tools_def tool_try_block_def split: sum.splits)
  qed
qed

lemma process_tool_calls_total:
  "\<exists>outs w1. process_tool_calls w tcs = (Inr outs, w1)
      \<and> map tool_call_id outs = map call_id tcs \<and> api_log w1 = api_log w"
proof (induction tcs arbitrary: w)
  case Nil
  show ?case by simp
next
  case (Cons tc tcs)
  obtain out w1 where a: "get_outputs_for_tools w tc = (Inr out, w1)"
    "tool_call_id out = call_id tc"
    using get_outputs_for_tools_total by blast
  with api_log_get_outputs_for_tools [of w tc] have l: "api_log w1 = api_log w"
    by simp
  obtain outs w2 where b: "process_tool_calls w1 tcs = (Inr outs, w2)"
    "map tool_call_id outs = map call_id tcs" "api_log w2 = api_log w1"
    using Cons.IH by blast
  have "tool_call_id (force_json_output w1 (validate_output_format out)) = tool_call_id out"
    by (simp add: force_json_output_def validate_output_format_def
        split: option.splits sum.splits)
  with a b l show ?case by (simp add: Let_def)
qed

lemma loop_body_submits:
  assumes "status r = str ''requires_action''" and "required_action r = Some tcs"
  shows "\<exists>outs w1. process_tool_calls w tcs = (Inr outs, w1)
      \<and> map tool_call_id outs = map call_id tcs
      \<and> take (Suc (length (api_log w))) (api_log (snd (loop_body w t r)))
          = api_log w @ [RunsSubmitToolOutputs t (run_id r) (map submission_entry outs)]"
proof -
  obtain outs w1 where p: "process_tool_calls w tcs = (Inr outs, w1)"
    "map tool_call_id outs = map call_id tcs" "api_log w1 = api_log w"
    using process_tool_calls_total by blast
  from assms p have "take (Suc (length (api_log w))) (api_log (snd (loop_body w t r)))
          = api_log w @ [RunsSubmitToolOutputs t (run_id r) (map submission_entry outs)]"
    by (simp add: loop_body_def client_runs_submit_tool_outputs_def client_runs_retrieve_def
        log_call_def Let_def split: sum.splits)
  with p show ?thesis by blast
qed

lemma validate_malformed:
  "output r = None \<Longrightarrow> error r = None \<Longrightarrow>
   force_json_output w (validate_output_format r)
     = r\<lparr>error := Some (str ''Invalid tool response format'')\<rparr>"
  by (simp add: force_json_output_def validate_output_format_def)

text \<open>
  C3: when the body of the request is a JSON object whose \<^verbatim>\<open>question\<close> is missing or the
  empty string, \<open>ask\<close> answers with status 400 and the body
  \<^verbatim>\<open>{"error": "No question provided"}\<close>, and the world is what it was: no call to the
  assistant provider was made (no thread created, no run started) and the session was
  not written.
\<close>

theorem ask_without_question:
  "question_missing_or_empty kvs \<Longrightarrow>
   ask w (Inr (PDict kvs))
     = Some (Inr (PDict [(str ''error'', PStr (str ''No question provided''))], 400), w)"
  by (auto simp: ask_def question_missing_or_empty_def dict_get_def split: option.splits)

text \<open>
  C4: a dispatch result with neither \<^verbatim>\<open>output\<close> nor \<^verbatim>\<open>error\<close> leaves the checks of the loop
  with the error \<^verbatim>\<open>Invalid tool response format\<close>, and is submitted as such; and when a
  run requires action, the results processed are one per tool call, with the ids of the
  calls in their order, and the call to \<^verbatim>\<open>submit_tool_outputs\<close> that follows carries an
  entry for each of them.
\<close>

theorem malformed_result_coerced:
  "(output r = None \<and> error r = None \<longrightarrow>
      force_json_output w (validate_output_format r)
        = r\<lparr>error := Some (str ''Invalid tool response format'')\<rparr>
      \<and> submission_entry (force_json_output w (validate_output_format r))
        = PDict [(str ''tool_call_id'', PStr (tool_call_id r)),
                 (str ''output'', PStr (json_dumps
                    (PDict [(str ''error'', PStr (str ''Invalid tool response format''))])))])
   \<and> (status rn = str ''requires_action'' \<and> required_action rn = Some tcs \<longrightarrow>
      (\<exists>outs w1. process_tool_calls w tcs = (Inr outs, w1)
         \<and> map tool_call_id outs = map call_id tcs
         \<and> take (Suc (length (api_log w))) (api_log (snd (loop_body w t rn)))
             = api_log w @ [RunsSubmitToolOutputs t (run_id rn) (map submission_entry outs)]))"
  using loop_body_submits [of rn tcs w t]
  by (simp add: validate_malformed submission_entry_def)

text \<open>
  C10: an entry submitted to the run has the two keys \<^verbatim>\<open>tool_call_id\<close> and \<^verbatim>\<open>output\<close>,
  and no \<^verbatim>\<open>error\<close> key; for a result with an error and no (or an empty) output, the
  value under \<^verbatim>\<open>output\<close> is the JSON text of \<^verbatim>\<open>{"error": <message>}\<close>; and what the loop
  submits for a run that requires action is the list of these entries.
\<close>

theorem errors_submitted_as_output:
  "(\<exists>v. submission_entry r
           = PDict [(str ''tool_call_id'', PStr (tool_call_id r)), (str ''output'', PStr v)])
   \<and> (error r = Some m \<and> (output r = None \<or> output r = Some []) \<longrightarrow>
        submission_entry r
          = PDict [(str ''tool_call_id'', PStr (tool_call_id r)),
                   (str ''output'', PStr (json_dumps (PDict [(str ''error'', PStr m)])))])
   \<and> (status rn = str ''requires_action'' \<and> required_action rn = Some tcs \<longrightarrow>
      (\<exists>outs w1. process_tool_calls w tcs = (Inr outs, w1)
         \<and> take (Suc (length (api_log w))) (api_log (snd (loop_body w t rn)))
             = api_log w @ [RunsSubmitToolOutputs t (run_id rn) (map submission_entry outs)]))"
proof -
  have a: "\<exists>v. submission_entry r
           = PDict [(str ''tool_call_id'', PStr (tool_call_id r)), (str ''output'', PStr v)]"
    by (simp add: submission_entry_def Let_def)
  have b: "error r = Some m \<and> (output r = None \<or> output r = Some []) \<longrightarrow>
        submission_entry r
          = PDict [(str ''tool_call_id'', PStr (tool_call_id r)),
                   (str ''output'', PStr (json_dumps (PDict [(str ''error'', PStr m)])))]"
    by (auto simp: submission_entry_def Let_def)
  from a b loop_body_submits [of rn tcs w t] show ?thesis
    by blast
qed

subsection \<open>The claims of the orchestrator at the example world\<close>

theorem ask_without_question_witness:
  "question_missing_or_empty []
   \<and> question_missing_or_empty [(str ''question'', PStr [])]
   \<and> ask example_world (Inr (PDict []))
       = Some (Inr (PDict [(str ''error'', PStr (str ''No question provided''))], 400),
               example_world)
   \<and> ask example_world (Inr (PDict [(str ''question'', PStr [])]))
       = Some (Inr (PDict [(str ''error'', PStr (str ''No question provided''))], 400),
               example_world)"
proof -
  have a: "question_missing_or_empty []"
    by (simp add: question_missing_or_empty_def)
  have b: "question_missing_or_empty [(str ''question'', PStr [])]"
    by (simp add: question_missing_or_empty_def)
  from a b ask_without_question [OF a, of example_world]
    ask_without_question [OF b, of example_world]
  show ?thesis by simp
qed

text \<open>
  The same answer is given for every falsy \<^verbatim>\<open>question\<close> (\<^verbatim>\<open>0\<close>, \<^verbatim>\<open>false\<close>, \<^verbatim>\<open>null\<close>, an empty list
  or object). A body that is not a JSON object makes \<^verbatim>\<open>data.get\<close> raise; the world is
  unchanged there too. A question that is present starts the conversation: in the example
  world a thread is created, its id is written to the session, and the formatted answer
  is returned.
\<close>

lemma ask_falsy_question:
  "\<not> truthy (dict_get kvs (str ''question'') PNone) \<Longrightarrow>
   ask w (Inr (PDict kvs))
     = Some (Inr (PDict [(str ''error'', PStr (str ''No question provided''))], 400), w)"
  by (simp add: ask_def)

lemma ask_not_an_object:
  "(case data of PDict kvs \<Rightarrow> False | _ \<Rightarrow> True) \<Longrightarrow>
   ask w (Inr data) = Some (Inl (no_attribute_get data), w)"
  by (cases data) (simp_all add: ask_def)

lemma ask_example:
  "ask example_world (Inr example_question)
     = Some (Inr (PDict [(str ''thread_id'', PStr (str ''thread_1'')),
                         (str ''run_id'', PStr (str ''run_1'')),
                         (str ''status'', PStr (str ''completed'')),
                         (str ''response'', PStr (str ''It is 20 '' @ [176] @ str ''C''))], 200),
             example_world
               \<lparr>session := [str ''thread_id'' \<mapsto> PStr (str ''thread_1'')],
                api_log := [ThreadsCreate,
                            MessagesCreate (PStr (str ''thread_1''))
                              (PStr (str ''How warm is it in London?'')),
                            RunsCreateAndPoll (PStr (str ''thread_1'')) (str ''asst_1''),
                            MessagesList (PStr (str ''thread_1''))]\<rparr>)"
  apply (simp add: ask_def example_question_def dict_get_def)
  apply (simp add: str_def ensure_thread_def client_threads_create_def log_call_def
      example_world_def client_messages_create_def client_runs_create_and_poll_def Let_def)
  apply (subst poll_loop.simps)
  apply (simp add: loop_body_def str_def final_message_def client_messages_list_def
      log_call_def format_weather_response_def replace_def ascii_lower_def Let_def)
  done

theorem malformed_result_coerced_witness:
  "output malformed_result = None \<and> error malformed_result = None
   \<and> force_json_output example_world (validate_output_format malformed_result)
       = malformed_result\<lparr>error := Some (str ''Invalid tool response format'')\<rparr>
   \<and> submission_entry (force_json_output example_world (validate_output_format malformed_result))
       = PDict [(str ''tool_call_id'', PStr (str ''call_1'')),
                (str ''output'', PStr (json_dumps
                   (PDict [(str ''error'', PStr (str ''Invalid tool response format''))])))]
   \<and> status example_run = str ''requires_action''
   \<and> required_action example_run = Some [nowhere_call]
   \<and> (\<exists>outs w1. process_tool_calls example_world [nowhere_call] = (Inr outs, w1)
         \<and> map tool_call_id outs = map call_id [nowhere_call]
         \<and> take (Suc (length (api_log example_world)))
              (api_log (snd (loop_body example_world (PStr (str ''thread_1'')) example_run)))
             = api_log example_world
                 @ [RunsSubmitToolOutputs (PStr (str ''thread_1'')) (run_id example_run)
                      (map submission_entry outs)])"
proof -
  have a: "output malformed_result = None \<and> error malformed_result = None"
    by (simp add: malformed_result_def)
  have b: "status example_run = str ''requires_action''
             \<and> required_action example_run = Some [nowhere_call]"
    by (simp add: example_run_def)
  have c: "tool_call_id malformed_result = str ''call_1''"
    by (simp add: malformed_result_def)
  note th = malformed_result_coerced [of malformed_result example_world example_run
      "[nowhere_call]" "PStr (str ''thread_1'')"]
  from th a have p: "force_json_output example_world (validate_output_format malformed_result)
       = malformed_result\<lparr>error := Some (str ''Invalid tool response format'')\<rparr>
     \<and> submission_entry
         (force_json_output example_world (validate_output_format malformed_result))
       = PDict [(str ''tool_call_id'', PStr (tool_call_id malformed_result)),
                (str ''output'', PStr (json_dumps
                   (PDict [(str ''error'', PStr (str ''Invalid tool response format''))])))]"
    by blast
  from th b have q: "\<exists>outs w1. process_tool_calls example_world [nowhere_call] = (Inr outs, w1)
         \<and> map tool_call_id outs = map call_id [nowhere_call]
         \<and> take (Suc (length (api_log example_world)))
              (api_log (snd (loop_body example_world (PStr (str ''thread_1'')) example_run)))
             = api_log example_world
                 @ [RunsSubmitToolOutputs (PStr (str ''thread_1'')) (run_id example_run)
                      (map submission_entry outs)]"
    by blast
  from a b p [unfolded c] q show ?thesis
    by blast
qed

theorem errors_submitted_as_output_witness:
  "error error_result = Some (str ''Unknown tool: unknown_tool'')
   \<and> output error_result = None
   \<and> submission_entry error_result
       = PDict [(str ''tool_call_id'', PStr (str ''call_1'')),
                (str ''output'', PStr (json_dumps
                   (PDict [(str ''error'', PStr (str ''Unknown tool: unknown_tool''))])))]
   \<and> status example_run = str ''requires_action''
   \<and> required_action example_run = Some [nowhere_call]
   \<and> (\<exists>outs w1. process_tool_calls example_world [nowhere_call] = (Inr outs, w1)
         \<and> take (Suc (length (api_log example_world)))
              (api_log (snd (loop_body example_world (PStr (str ''thread_1'')) example_run)))
             = api_log example_world
                 @ [RunsSubmitToolOutputs (PStr (str ''thread_1'')) (run_id example_run)
                      (map submission_entry outs)])"
proof -
  have a: "error error_result = Some (str ''Unknown tool: unknown_tool'')
             \<and> output error_result = None"
    by (simp add: error_result_def)
  have b: "status example_run = str ''requires_action''
             \<and> required_action example_run = Some [nowhere_call]"
    by (simp add: example_run_def)
  have c: "tool_call_id error_result = str ''call_1''"
    by (simp add: error_result_def)
  from a b errors_submitted_as_output [of error_result "str ''Unknown tool: unknown_tool''"
      example_run "[nowhere_call]" example_world "PStr (str ''thread_1'')"]
  show ?thesis
    unfolding c by simp
qed

text \<open>
  In the example world the run asks for the weather of \<^verbatim>\<open>Nowhereville\<close>; what is submitted
  for that call is the output \<^verbatim>\<open>null\<close>.
\<close>

lemma loop_body_example:
  "api_log (snd (loop_body example_world (PStr (str ''thread_1'')) example_run))
     = [RunsSubmitToolOutputs (PStr (str ''thread_1'')) (str ''run_1'')
          [PDict [(str ''tool_call_id'', PStr (str ''call_1'')),
                  (str ''output'', PStr (str ''null''))]]]"
  by (simp add: loop_body_def example_run_def
      geocoding_empty_def example_world_def example_network_def geocoding_request_def
      ok_status_def get_weather_by_city_def city_query_def Let_def except_RequestException_def
      fetch_json_def requests_get_def raise_for_status_def
      get_outputs_for_tools_def tool_try_block_def tool_dispatcher_def nowhere_call_def
      example_json_loads_def dict_get_def getenv_def str_def then_exc_def geocoding_url_def
      force_json_output_def validate_output_format_def submission_entry_def
      client_runs_submit_tool_outputs_def log_call_def)


end
